theory Spec2Isabelle
  imports Complex_Main
begin

section \<open>The metrics package of kubernetes-event-exporter\<close>

text \<open>
  A shallow embedding of \<^verbatim>\<open>pkg/metrics/metrics.go\<close>: the two package globals
  (\<^verbatim>\<open>globalMetricsStore\<close>, \<^verbatim>\<open>lastEventProcessedTime\<close>), the readiness
  evaluator, the probe handlers that \<^verbatim>\<open>Init\<close> installs, and the creation and
  destruction of a \<^verbatim>\<open>Store\<close> of instruments on the default Prometheus registry.
\<close>

subsection \<open>Time\<close>

text \<open>
  A \<^verbatim>\<open>time.Time\<close> is an instant, counted here in nanoseconds from the zero instant
  (January 1 of year 1, UTC), on one time line: the wall clock and the monotonic clock of
  the Go runtime are not told apart. A \<^verbatim>\<open>time.Duration\<close> is an \<^verbatim>\<open>int64\<close> of
  nanoseconds; \<^verbatim>\<open>Time.Sub\<close> saturates at the ends of that range, which is written out.
\<close>

type_synonym Time = int
type_synonym Duration = int

definition Second :: Duration where
  "Second = 1000000000"

definition Minute :: Duration where
  "Minute = 60 * Second"

definition maxDuration :: Duration where
  "maxDuration = 2 ^ 63 - 1"

definition minDuration :: Duration where
  "minDuration = - (2 ^ 63)"

definition IsZero :: "Time \<Rightarrow> bool" where
  "IsZero t = (t = 0)"

definition Sub :: "Time \<Rightarrow> Time \<Rightarrow> Duration" where
  "Sub t u =
     (let d = t - u in
      if d < minDuration then minDuration
      else if maxDuration < d then maxDuration
      else d)"

text \<open>\<^verbatim>\<open>time.Since(t)\<close> is \<^verbatim>\<open>time.Now().Sub(t)\<close>; the clock reading is a parameter.\<close>

definition Since :: "Time \<Rightarrow> Time \<Rightarrow> Duration" where
  "Since now t = Sub now t"

subsection \<open>Instruments, stores and the process state\<close>

type_synonym addr = nat

text \<open>
  The constants of \<^verbatim>\<open>pkg/version\<close> and the name check of the metrics library are not
  part of the package; they are parameters of the model.
\<close>

record env =
  IsValidMetricName :: "string \<Rightarrow> bool"
  Version :: string
  Revision :: string
  GoVersion :: string
  GoOS :: string
  GoArch :: string

record Opts =
  Name :: string
  Help :: string
  ConstLabels :: "(string \<times> string) list"

datatype instrument_kind = CounterKind | GaugeKind | GaugeFuncKind

text \<open>An instrument object: its descriptor, its kind and the number it currently reports.\<close>

record instrument =
  opts :: Opts
  kind :: instrument_kind
  reading :: real

text \<open>The struct \<^verbatim>\<open>Store\<close>: one interface value (a pointer to an instrument) per field.\<close>

record Store =
  EventsProcessed :: addr
  EventsDiscarded :: addr
  WatchErrors :: addr
  SendErrors :: addr
  BuildInfo :: addr
  KubeApiReadCacheHits :: addr
  KubeApiReadRequests :: addr
  LastProcessedEventTimestamp :: addr

text \<open>
  The process: two heaps (an address is an index; allocation appends and nothing is ever
  freed), the default registry of the metrics library keyed by exported name, and the two
  package variables. \<^verbatim>\<open>nil\<close> is \<open>None\<close>.
\<close>

record proc =
  instruments :: "instrument list"
  stores :: "Store list"
  DefaultRegisterer :: "string \<rightharpoonup> addr"
  globalMetricsStore :: "addr option"
  lastEventProcessedTime :: Time

definition deref :: "'a list \<Rightarrow> addr \<Rightarrow> 'a option" where
  "deref h a = (if a < length h then Some (h ! a) else None)"

definition alloc_instrument :: "instrument \<Rightarrow> proc \<Rightarrow> addr \<times> proc" where
  "alloc_instrument m s = (length (instruments s), s\<lparr>instruments := instruments s @ [m]\<rparr>)"

definition alloc_store :: "Store \<Rightarrow> proc \<Rightarrow> addr \<times> proc" where
  "alloc_store st s = (length (stores s), s\<lparr>stores := stores s @ [st]\<rparr>)"

subsection \<open>Panics\<close>

datatype registration_error = AlreadyRegisteredError string | InvalidDescriptor string

datatype panic = RegistrationPanic registration_error | NilPointerDereference

text \<open>A call either returns a value or unwinds with a panic; both leave a process state.\<close>

datatype 'a outcome =
    is_Panics: Panics (panic_of: panic) (state_of: proc)
  | Returns (result_of: 'a) (state_of: proc)

fun andThen :: "'a outcome \<Rightarrow> ('a \<Rightarrow> proc \<Rightarrow> 'b outcome) \<Rightarrow> 'b outcome" where
  "andThen (Panics e s) f = Panics e s"
| "andThen (Returns x s) f = f x s"

subsection \<open>The metrics library, at its interface\<close>

text \<open>
  The Prometheus client library (its default registry, the shared collection point, and
  the \<^verbatim>\<open>promauto\<close> constructors) is not among the sources. The registry is keyed
  here by exported name; the library keys it by a hash of the descriptor, which for the
  instruments of this package is determined by the name.
\<close>

text \<open>
  Modelled from the spec: \<^verbatim>\<open>Registerer.Register\<close>, which is missing. Registration
  fails when the derived name is invalid or already exists in the collection point.
\<close>

definition Register :: "env \<Rightarrow> string \<Rightarrow> addr \<Rightarrow> (string \<rightharpoonup> addr) \<Rightarrow> registration_error + (string \<rightharpoonup> addr)" where
  "Register E n c reg =
     (if \<not> IsValidMetricName E n then Inl (InvalidDescriptor n)
      else if reg n \<noteq> None then Inl (AlreadyRegisteredError n)
      else Inr (reg(n \<mapsto> c)))"

text \<open>
  Modelled from the spec: \<^verbatim>\<open>Registerer.Unregister\<close>, which is missing. It removes
  the instrument registered under the given descriptor and reports whether there was
  one; removing an instrument that is absent is a no-op, not an error.
\<close>

definition Unregister :: "string \<Rightarrow> (string \<rightharpoonup> addr) \<Rightarrow> bool \<times> (string \<rightharpoonup> addr)" where
  "Unregister n reg = (if reg n = None then (False, reg) else (True, reg(n := None)))"

text \<open>
  Modelled from the spec: \<^verbatim>\<open>prometheus.MustRegister\<close> on the default registry, which
  is missing. It panics with the error of a failed registration.
\<close>

definition MustRegister :: "env \<Rightarrow> addr \<Rightarrow> proc \<Rightarrow> unit outcome" where
  "MustRegister E c s =
     (case deref (instruments s) c of
        None \<Rightarrow> Panics NilPointerDereference s
      | Some m \<Rightarrow>
          (case Register E (Name (opts m)) c (DefaultRegisterer s) of
             Inl err \<Rightarrow> Panics (RegistrationPanic err) s
           | Inr reg \<Rightarrow> Returns () (s\<lparr>DefaultRegisterer := reg\<rparr>)))"

text \<open>
  Modelled from the spec: \<^verbatim>\<open>prometheus.Unregister\<close> on the default registry, which
  is missing. It reads the descriptor of the instrument it is given.
\<close>

definition prometheus_Unregister :: "addr \<Rightarrow> proc \<Rightarrow> bool outcome" where
  "prometheus_Unregister c s =
     (case deref (instruments s) c of
        None \<Rightarrow> Panics NilPointerDereference s
      | Some m \<Rightarrow>
          (case Unregister (Name (opts m)) (DefaultRegisterer s) of
             (found, reg) \<Rightarrow> Returns found (s\<lparr>DefaultRegisterer := reg\<rparr>)))"

text \<open>
  Modelled from the spec: the common part of the \<^verbatim>\<open>promauto\<close> constructors, which
  are missing. They allocate the instrument and register it at once; they return the
  instrument alone, so a failed registration is a panic.
\<close>

definition promauto_New :: "env \<Rightarrow> instrument \<Rightarrow> proc \<Rightarrow> addr outcome" where
  "promauto_New E m s =
     (case alloc_instrument m s of
        (c, s') \<Rightarrow> andThen (MustRegister E c s') (\<lambda>_. Returns c))"

text \<open>Modelled from the spec: \<^verbatim>\<open>promauto.NewCounter\<close>, which is missing; a counter starts at 0.\<close>

definition promauto_NewCounter :: "env \<Rightarrow> Opts \<Rightarrow> proc \<Rightarrow> addr outcome" where
  "promauto_NewCounter E os = promauto_New E \<lparr>opts = os, kind = CounterKind, reading = 0\<rparr>"

text \<open>Modelled from the spec: \<^verbatim>\<open>promauto.NewGauge\<close>, which is missing; a gauge starts at 0.\<close>

definition promauto_NewGauge :: "env \<Rightarrow> Opts \<Rightarrow> proc \<Rightarrow> addr outcome" where
  "promauto_NewGauge E os = promauto_New E \<lparr>opts = os, kind = GaugeKind, reading = 0\<rparr>"

text \<open>
  Modelled from the spec: \<^verbatim>\<open>promauto.NewGaugeFunc\<close>, which is missing; the gauge
  reports what its function returns, here a constant.
\<close>

definition promauto_NewGaugeFunc :: "env \<Rightarrow> Opts \<Rightarrow> real \<Rightarrow> proc \<Rightarrow> addr outcome" where
  "promauto_NewGaugeFunc E os r = promauto_New E \<lparr>opts = os, kind = GaugeFuncKind, reading = r\<rparr>"

subsection \<open>The readiness evaluator and the timestamp\<close>

definition isEventExporterReady :: "Time \<Rightarrow> proc \<Rightarrow> bool" where
  "isEventExporterReady now s =
     (if globalMetricsStore s = None then False
      else if IsZero (lastEventProcessedTime s) then True
      else (let timeSinceLastEvent = Since now (lastEventProcessedTime s)
            in timeSinceLastEvent < 5 * Minute))"

definition SetLastEventProcessedTime :: "Time \<Rightarrow> proc \<Rightarrow> proc" where
  "SetLastEventProcessedTime now s = s\<lparr>lastEventProcessedTime := now\<rparr>"

subsection \<open>The probe handlers installed by \<^verbatim>\<open>Init\<close>\<close>

text \<open>
  An \<^verbatim>\<open>http.ResponseWriter\<close>: the first \<^verbatim>\<open>WriteHeader\<close> fixes the status, a write
  before any header fixes it at 200, and writes append to the body.
\<close>

record ResponseWriter =
  wroteHeader :: bool
  status :: nat
  body :: string

definition newResponseWriter :: ResponseWriter where
  "newResponseWriter = \<lparr>wroteHeader = False, status = 0, body = []\<rparr>"

definition StatusOK :: nat where
  "StatusOK = 200"

definition StatusServiceUnavailable :: nat where
  "StatusServiceUnavailable = 503"

definition WriteHeader :: "nat \<Rightarrow> ResponseWriter \<Rightarrow> ResponseWriter" where
  "WriteHeader code w = (if wroteHeader w then w else w\<lparr>wroteHeader := True, status := code\<rparr>)"

definition Fprintf :: "ResponseWriter \<Rightarrow> string \<Rightarrow> ResponseWriter" where
  "Fprintf w text = (let w' = WriteHeader StatusOK w in w'\<lparr>body := body w' @ text\<rparr>)"

definition healthy_handler :: "Time \<Rightarrow> proc \<Rightarrow> ResponseWriter \<Rightarrow> ResponseWriter" where
  "healthy_handler now s w = Fprintf (WriteHeader StatusOK w) ''OK''"

definition ready_handler :: "Time \<Rightarrow> proc \<Rightarrow> ResponseWriter \<Rightarrow> ResponseWriter" where
  "ready_handler now s w =
     (if isEventExporterReady now s
      then Fprintf (WriteHeader StatusOK w) ''OK''
      else Fprintf (WriteHeader StatusServiceUnavailable w) ''Not Ready - No events processed recently'')"

text \<open>The two \<^verbatim>\<open>http.HandleFunc\<close> calls of \<^verbatim>\<open>Init\<close>, as pattern and handler.\<close>

definition probe_routes :: "(string \<times> (Time \<Rightarrow> proc \<Rightarrow> ResponseWriter \<Rightarrow> ResponseWriter)) list" where
  "probe_routes = [(''/-/healthy'', healthy_handler), (''/-/ready'', ready_handler)]"

text \<open>A request for a path that is one of the two patterns, answered on a fresh writer.\<close>

definition serve_probe :: "string \<Rightarrow> Time \<Rightarrow> proc \<Rightarrow> ResponseWriter option" where
  "serve_probe path now s =
     (case map_of probe_routes path of
        None \<Rightarrow> None
      | Some h \<Rightarrow> Some (h now s newResponseWriter))"

subsection \<open>Creating and destroying a store\<close>

definition build_info_help :: string where
  "build_info_help = ''A metric with a constant '' @ [CHR 0x27] @ ''1'' @ [CHR 0x27] @
     '' value labeled by version, revision, branch, and goversion from which Kubernetes Event Exporter was built.''"

text \<open>
  The fields of the composite literal are evaluated in the order they are written, so a
  panic of one constructor leaves the earlier instruments registered and the global
  untouched.
\<close>

definition NewMetricsStore :: "env \<Rightarrow> string \<Rightarrow> proc \<Rightarrow> addr outcome" where
  "NewMetricsStore E name_prefix s =
     andThen (promauto_NewGaugeFunc E
       \<lparr>Name = name_prefix @ ''build_info'',
        Help = build_info_help,
        ConstLabels = [(''version'', Version E), (''revision'', Revision E),
          (''goversion'', GoVersion E), (''goos'', GoOS E), (''goarch'', GoArch E)]\<rparr> 1 s)
     (\<lambda>buildInfo. \<lambda>s.
     andThen (promauto_NewCounter E
       \<lparr>Name = name_prefix @ ''events_sent'',
        Help = ''The total number of events processed'',
        ConstLabels = []\<rparr> s)
     (\<lambda>eventsProcessed. \<lambda>s.
     andThen (promauto_NewCounter E
       \<lparr>Name = name_prefix @ ''events_discarded'',
        Help = ''The total number of events discarded because of being older than the maxEventAgeSeconds specified'',
        ConstLabels = []\<rparr> s)
     (\<lambda>eventsDiscarded. \<lambda>s.
     andThen (promauto_NewCounter E
       \<lparr>Name = name_prefix @ ''watch_errors'',
        Help = ''The total number of errors received from the informer'',
        ConstLabels = []\<rparr> s)
     (\<lambda>watchErrors. \<lambda>s.
     andThen (promauto_NewCounter E
       \<lparr>Name = name_prefix @ ''send_event_errors'',
        Help = ''The total number of send event errors'',
        ConstLabels = []\<rparr> s)
     (\<lambda>sendErrors. \<lambda>s.
     andThen (promauto_NewCounter E
       \<lparr>Name = name_prefix @ ''kube_api_read_cache_hits'',
        Help = ''The total number of read requests served from cache when looking up object metadata'',
        ConstLabels = []\<rparr> s)
     (\<lambda>kubeApiReadCacheHits. \<lambda>s.
     andThen (promauto_NewCounter E
       \<lparr>Name = name_prefix @ ''kube_api_read_cache_misses'',
        Help = ''The total number of read requests served from kube-apiserver when looking up object metadata'',
        ConstLabels = []\<rparr> s)
     (\<lambda>kubeApiReadRequests. \<lambda>s.
     andThen (promauto_NewGauge E
       \<lparr>Name = name_prefix @ ''last_processed_event_timestamp'',
        Help = ''The timestamp of the last successfully processed event'',
        ConstLabels = []\<rparr> s)
     (\<lambda>lastProcessedEventTimestamp. \<lambda>s.
       (case alloc_store
           \<lparr>EventsProcessed = eventsProcessed,
            EventsDiscarded = eventsDiscarded,
            WatchErrors = watchErrors,
            SendErrors = sendErrors,
            BuildInfo = buildInfo,
            KubeApiReadCacheHits = kubeApiReadCacheHits,
            KubeApiReadRequests = kubeApiReadRequests,
            LastProcessedEventTimestamp = lastProcessedEventTimestamp\<rparr> s of
          (store, s') \<Rightarrow> Returns store (s'\<lparr>globalMetricsStore := Some store\<rparr>))))))))))"

text \<open>
  \<^verbatim>\<open>DestroyMetricsStore\<close> reads each field of the store it is given and unregisters
  it. Its last statement, \<^verbatim>\<open>store = nil\<close>, assigns to the parameter, a local copy of
  the pointer: no state of the process changes by it.
\<close>

definition DestroyMetricsStore :: "addr option \<Rightarrow> proc \<Rightarrow> unit outcome" where
  "DestroyMetricsStore store s =
     (case (case store of None \<Rightarrow> None | Some p \<Rightarrow> deref (stores s) p) of
        None \<Rightarrow> Panics NilPointerDereference s
      | Some st \<Rightarrow>
          andThen (prometheus_Unregister (EventsProcessed st) s) (\<lambda>_. \<lambda>s.
          andThen (prometheus_Unregister (EventsDiscarded st) s) (\<lambda>_. \<lambda>s.
          andThen (prometheus_Unregister (WatchErrors st) s) (\<lambda>_. \<lambda>s.
          andThen (prometheus_Unregister (SendErrors st) s) (\<lambda>_. \<lambda>s.
          andThen (prometheus_Unregister (BuildInfo st) s) (\<lambda>_. \<lambda>s.
          andThen (prometheus_Unregister (KubeApiReadCacheHits st) s) (\<lambda>_. \<lambda>s.
          andThen (prometheus_Unregister (KubeApiReadRequests st) s) (\<lambda>_. \<lambda>s.
          andThen (prometheus_Unregister (LastProcessedEventTimestamp st) s) (\<lambda>_. \<lambda>s.
            (let store = (None :: addr option) in Returns () s))))))))))"

subsection \<open>Vocabulary of the properties\<close>

text \<open>
  The exported names that \<^verbatim>\<open>NewMetricsStore\<close> derives from a prefix, in the order in
  which it registers them.
\<close>

definition store_names :: "string \<Rightarrow> string list" where
  "store_names name_prefix = map ((@) name_prefix)
     [''build_info'', ''events_sent'', ''events_discarded'', ''watch_errors'',
      ''send_event_errors'', ''kube_api_read_cache_hits'', ''kube_api_read_cache_misses'',
      ''last_processed_event_timestamp'']"

text \<open>
  A prefix can be registered in a state when each of its derived names is valid and
  absent from the collection point.
\<close>

definition registrable :: "env \<Rightarrow> string \<Rightarrow> proc \<Rightarrow> bool" where
  "registrable E name_prefix s =
     list_all (\<lambda>n. IsValidMetricName E n \<and> DefaultRegisterer s n = None) (store_names name_prefix)"

text \<open>The instrument handles of a store, in the order of the struct's fields.\<close>

definition handles :: "Store \<Rightarrow> addr list" where
  "handles st = [EventsProcessed st, EventsDiscarded st, WatchErrors st, SendErrors st,
     BuildInfo st, KubeApiReadCacheHits st, KubeApiReadRequests st, LastProcessedEventTimestamp st]"

text \<open>The name under which the instrument behind a handle is exported.\<close>

definition exported_name :: "proc \<Rightarrow> addr \<Rightarrow> string option" where
  "exported_name s c = map_option (\<lambda>m. Name (opts m)) (deref (instruments s) c)"

text \<open>
  Unregistering a list of handles one after the other, and the state this leaves when
  every handle is allocated: the calls of \<^verbatim>\<open>DestroyMetricsStore\<close> as a loop.
\<close>

fun unregister_each :: "addr list \<Rightarrow> proc \<Rightarrow> unit outcome" where
  "unregister_each [] s = Returns () s"
| "unregister_each (c # cs) s = andThen (prometheus_Unregister c s) (\<lambda>_. unregister_each cs)"

definition unregistered :: "addr list \<Rightarrow> proc \<Rightarrow> proc" where
  "unregistered cs s = s\<lparr>DefaultRegisterer :=
      (\<lambda>n. if n \<in> (\<lambda>c. Name (opts (instruments s ! c))) ` set cs then None
           else DefaultRegisterer s n)\<rparr>"

text \<open>
  Concrete runs: an environment whose name check accepts every non-empty name, the
  process before any call into the package, and the states after creating a store with
  the prefix \<^verbatim>\<open>svc_\<close> and after destroying it.
\<close>

definition test_env :: env where
  "test_env = \<lparr>IsValidMetricName = (\<lambda>n. n \<noteq> []), Version = ''1.0'', Revision = ''unknown'',
     GoVersion = ''go1.20'', GoOS = ''linux'', GoArch = ''amd64''\<rparr>"

definition start :: proc where
  "start = \<lparr>instruments = [], stores = [], DefaultRegisterer = Map.empty,
     globalMetricsStore = None, lastEventProcessedTime = 0\<rparr>"

definition svc_created :: proc where
  "svc_created = state_of (NewMetricsStore test_env ''svc_'' start)"

definition svc_destroyed :: proc where
  "svc_destroyed = state_of (DestroyMetricsStore (Some 0) svc_created)"

text \<open>A second store, created with another prefix while the first is still registered.\<close>

definition other_created :: proc where
  "other_created = state_of (NewMetricsStore test_env ''other_'' svc_created)"

section \<open>Auxiliary facts\<close>

lemma andThen_Returns_iff:
  "andThen m f = Returns y t \<longleftrightarrow> (\<exists>x s1. m = Returns x s1 \<and> f x s1 = Returns y t)"
  by (cases m) simp_all

lemma prometheus_Unregister_Some:
  assumes "deref (instruments s) c = Some m"
  shows "prometheus_Unregister c s =
    Returns (DefaultRegisterer s (Name (opts m)) \<noteq> None)
      (s\<lparr>DefaultRegisterer := (DefaultRegisterer s)(Name (opts m) := None)\<rparr>)"
proof (cases "DefaultRegisterer s (Name (opts m))")
  case None
  then have "(DefaultRegisterer s)(Name (opts m) := None) = DefaultRegisterer s"
    by (metis fun_upd_triv)
  with None assms show ?thesis
    by (simp add: prometheus_Unregister_def Unregister_def)
next
  case (Some a)
  with assms show ?thesis
    by (simp add: prometheus_Unregister_def Unregister_def)
qed

lemma prometheus_Unregister_Returns_iff:
  "prometheus_Unregister c s = Returns b s' \<longleftrightarrow>
     (\<exists>m. deref (instruments s) c = Some m \<and> b = (DefaultRegisterer s (Name (opts m)) \<noteq> None) \<and>
       s' = s\<lparr>DefaultRegisterer := (DefaultRegisterer s)(Name (opts m) := None)\<rparr>)"
proof (cases "deref (instruments s) c")
  case None
  then show ?thesis by (simp add: prometheus_Unregister_def)
next
  case (Some m)
  then show ?thesis by (auto simp: prometheus_Unregister_Some)
qed

lemma unregister_each_Nil: "unregister_each [] = Returns ()"
  by (rule ext) simp

lemma unregister_each_Cons:
  "unregister_each (c # cs) = (\<lambda>s. andThen (prometheus_Unregister c s) (\<lambda>_. unregister_each cs))"
  by (rule ext) simp

lemma DestroyMetricsStore_unregister_each:
  "DestroyMetricsStore store s =
     (case (case store of None \<Rightarrow> None | Some p \<Rightarrow> deref (stores s) p) of
        None \<Rightarrow> Panics NilPointerDereference s
      | Some st \<Rightarrow> unregister_each (handles st) s)"
  by (simp add: DestroyMetricsStore_def handles_def unregister_each_Cons unregister_each_Nil
      split: option.splits)

lemma unregister_each_Returns_iff:
  "unregister_each cs s = Returns () s1 \<longleftrightarrow>
     list_all (\<lambda>c. c < length (instruments s)) cs \<and> s1 = unregistered cs s"
proof (induction cs arbitrary: s)
  case Nil
  show ?case by (auto simp: unregistered_def)
next
  case (Cons c cs)
  have eq: "unregistered cs
        (s\<lparr>DefaultRegisterer := (DefaultRegisterer s)(Name (opts (instruments s ! c)) := None)\<rparr>)
      = unregistered (c # cs) s"
    by (auto simp: unregistered_def fun_eq_iff)
  show ?case
  proof (cases "c < length (instruments s)")
    case True
    then show ?thesis
      by (simp add: andThen_Returns_iff prometheus_Unregister_Returns_iff Cons.IH deref_def eq)
  next
    case False
    then show ?thesis
      by (simp add: andThen_Returns_iff prometheus_Unregister_Returns_iff deref_def)
  qed
qed

lemma unregistered_idem: "unregistered cs (unregistered cs s) = unregistered cs s"
  by (auto simp: unregistered_def fun_eq_iff)

lemma promauto_New_Returns_iff:
  "promauto_New E m s = Returns c s' \<longleftrightarrow>
     IsValidMetricName E (Name (opts m)) \<and> DefaultRegisterer s (Name (opts m)) = None \<and>
     c = length (instruments s) \<and>
     s' = s\<lparr>instruments := instruments s @ [m],
            DefaultRegisterer := (DefaultRegisterer s)(Name (opts m) \<mapsto> length (instruments s))\<rparr>"
  by (auto simp: promauto_New_def alloc_instrument_def MustRegister_def deref_def Register_def
      andThen_Returns_iff)

lemma promauto_New_duplicate:
  assumes "IsValidMetricName E (Name (opts m))" and "DefaultRegisterer s (Name (opts m)) \<noteq> None"
  shows "promauto_New E m s =
     Panics (RegistrationPanic (AlreadyRegisteredError (Name (opts m))))
       (s\<lparr>instruments := instruments s @ [m]\<rparr>)"
  using assms
  by (auto simp: promauto_New_def alloc_instrument_def MustRegister_def deref_def Register_def)

lemmas promauto_defs = promauto_NewCounter_def promauto_NewGauge_def promauto_NewGaugeFunc_def

lemma NewMetricsStore_ReturnsD:
  assumes "NewMetricsStore E name_prefix s = Returns p s'"
  shows "\<exists>m0 m1 m2 m3 m4 m5 m6 m7.
    registrable E name_prefix s \<and>
    p = length (stores s) \<and>
    instruments s' = instruments s @ [m0, m1, m2, m3, m4, m5, m6, m7] \<and>
    map (\<lambda>m. Name (opts m)) [m0, m1, m2, m3, m4, m5, m6, m7] = store_names name_prefix \<and>
    map kind [m0, m1, m2, m3, m4, m5, m6, m7] =
       [GaugeFuncKind, CounterKind, CounterKind, CounterKind, CounterKind, CounterKind,
        CounterKind, GaugeKind] \<and>
    map reading [m0, m1, m2, m3, m4, m5, m6, m7] = [1, 0, 0, 0, 0, 0, 0, 0] \<and>
    stores s' = stores s @
       [\<lparr>EventsProcessed = length (instruments s) + 1,
         EventsDiscarded = length (instruments s) + 2,
         WatchErrors = length (instruments s) + 3,
         SendErrors = length (instruments s) + 4,
         BuildInfo = length (instruments s),
         KubeApiReadCacheHits = length (instruments s) + 5,
         KubeApiReadRequests = length (instruments s) + 6,
         LastProcessedEventTimestamp = length (instruments s) + 7\<rparr>] \<and>
    DefaultRegisterer s' = (DefaultRegisterer s)
       (name_prefix @ ''build_info'' \<mapsto> length (instruments s),
        name_prefix @ ''events_sent'' \<mapsto> length (instruments s) + 1,
        name_prefix @ ''events_discarded'' \<mapsto> length (instruments s) + 2,
        name_prefix @ ''watch_errors'' \<mapsto> length (instruments s) + 3,
        name_prefix @ ''send_event_errors'' \<mapsto> length (instruments s) + 4,
        name_prefix @ ''kube_api_read_cache_hits'' \<mapsto> length (instruments s) + 5,
        name_prefix @ ''kube_api_read_cache_misses'' \<mapsto> length (instruments s) + 6,
        name_prefix @ ''last_processed_event_timestamp'' \<mapsto> length (instruments s) + 7) \<and>
    globalMetricsStore s' = Some p \<and>
    lastEventProcessedTime s' = lastEventProcessedTime s"
  using assms
  by (auto simp: NewMetricsStore_def promauto_defs andThen_Returns_iff promauto_New_Returns_iff
      alloc_store_def registrable_def store_names_def eval_nat_numeral)

lemma NewMetricsStore_registrable:
  assumes "registrable E name_prefix s"
  shows "\<exists>s'. NewMetricsStore E name_prefix s = Returns (length (stores s)) s'"
  using assms
  by (simp add: NewMetricsStore_def promauto_defs andThen_Returns_iff promauto_New_Returns_iff
      alloc_store_def registrable_def store_names_def)

lemma NewMetricsStore_then_Destroy:
  assumes "NewMetricsStore E name_prefix s = Returns p s1"
  shows "DestroyMetricsStore (Some p) s1 = Returns () (s1\<lparr>DefaultRegisterer := DefaultRegisterer s\<rparr>)"
proof -
  from NewMetricsStore_ReturnsD [OF assms]
  obtain m0 m1 m2 m3 m4 m5 m6 m7 where
    reg: "registrable E name_prefix s" and p: "p = length (stores s)" and
    ins: "instruments s1 = instruments s @ [m0, m1, m2, m3, m4, m5, m6, m7]" and
    names: "map (\<lambda>m. Name (opts m)) [m0, m1, m2, m3, m4, m5, m6, m7] = store_names name_prefix" and
    sts: "stores s1 = stores s @
       [\<lparr>EventsProcessed = length (instruments s) + 1,
         EventsDiscarded = length (instruments s) + 2,
         WatchErrors = length (instruments s) + 3,
         SendErrors = length (instruments s) + 4,
         BuildInfo = length (instruments s),
         KubeApiReadCacheHits = length (instruments s) + 5,
         KubeApiReadRequests = length (instruments s) + 6,
         LastProcessedEventTimestamp = length (instruments s) + 7\<rparr>]" and
    regs: "DefaultRegisterer s1 = (DefaultRegisterer s)
       (name_prefix @ ''build_info'' \<mapsto> length (instruments s),
        name_prefix @ ''events_sent'' \<mapsto> length (instruments s) + 1,
        name_prefix @ ''events_discarded'' \<mapsto> length (instruments s) + 2,
        name_prefix @ ''watch_errors'' \<mapsto> length (instruments s) + 3,
        name_prefix @ ''send_event_errors'' \<mapsto> length (instruments s) + 4,
        name_prefix @ ''kube_api_read_cache_hits'' \<mapsto> length (instruments s) + 5,
        name_prefix @ ''kube_api_read_cache_misses'' \<mapsto> length (instruments s) + 6,
        name_prefix @ ''last_processed_event_timestamp'' \<mapsto> length (instruments s) + 7)"
    by blast
  define st where "st = stores s1 ! p"
  have st: "deref (stores s1) p = Some st"
    by (simp add: deref_def st_def sts p)
  have hs: "handles st = map (\<lambda>k. length (instruments s) + k) [1, 2, 3, 4, 0, 5, 6, 7]"
    by (simp add: st_def sts p handles_def)
  have alloc: "list_all (\<lambda>c. c < length (instruments s1)) (handles st)"
    by (simp add: hs ins)
  have nm: "(\<lambda>c. Name (opts (instruments s1 ! c))) ` set (handles st) = set (store_names name_prefix)"
    using names by (auto simp: hs ins nth_append store_names_def)
  have absent: "\<And>n. n \<in> set (store_names name_prefix) \<Longrightarrow> DefaultRegisterer s n = None"
    using reg by (simp add: registrable_def list_all_iff)
  have other: "\<And>n. n \<notin> set (store_names name_prefix) \<Longrightarrow> DefaultRegisterer s1 n = DefaultRegisterer s n"
    by (simp add: regs store_names_def)
  have "unregistered (handles st) s1 = s1\<lparr>DefaultRegisterer := DefaultRegisterer s\<rparr>"
    unfolding unregistered_def nm using absent other by (auto simp: fun_eq_iff)
  with alloc have "unregister_each (handles st) s1 = Returns () (s1\<lparr>DefaultRegisterer := DefaultRegisterer s\<rparr>)"
    by (simp add: unregister_each_Returns_iff)
  with st show ?thesis
    by (simp add: DestroyMetricsStore_unregister_each)
qed

lemma NewMetricsStore_again:
  assumes "NewMetricsStore E name_prefix s = Returns p s1"
  shows "\<exists>m. NewMetricsStore E name_prefix s1 =
     Panics (RegistrationPanic (AlreadyRegisteredError (name_prefix @ ''build_info'')))
       (s1\<lparr>instruments := instruments s1 @ [m]\<rparr>)"
proof -
  from NewMetricsStore_ReturnsD [OF assms]
  have reg: "registrable E name_prefix s" and
    regs: "DefaultRegisterer s1 (name_prefix @ ''build_info'') \<noteq> None"
    by auto
  from reg have valid: "IsValidMetricName E (name_prefix @ ''build_info'')"
    by (simp add: registrable_def store_names_def)
  show ?thesis
    using valid regs
    by (simp add: NewMetricsStore_def promauto_NewGaugeFunc_def promauto_New_duplicate) blast
qed

subsection \<open>The concrete runs\<close>

lemma registrable_start: "registrable test_env ''svc_'' start"
  by (simp add: registrable_def store_names_def test_env_def start_def)

lemma svc_created_run: "NewMetricsStore test_env ''svc_'' start = Returns 0 svc_created"
  using NewMetricsStore_registrable [OF registrable_start]
  by (auto simp: svc_created_def start_def)

lemma svc_created_globals:
  "globalMetricsStore svc_created = Some 0" "lastEventProcessedTime svc_created = 0"
  "stores start = []" "length (stores svc_created) = 1"
  using NewMetricsStore_ReturnsD [OF svc_created_run]
  by (auto simp: start_def)

lemma svc_destroyed_run: "DestroyMetricsStore (Some 0) svc_created = Returns () svc_destroyed"
  using NewMetricsStore_then_Destroy [OF svc_created_run]
  by (simp add: svc_destroyed_def)

lemma svc_destroyed_eq: "svc_destroyed = svc_created\<lparr>DefaultRegisterer := DefaultRegisterer start\<rparr>"
  using NewMetricsStore_then_Destroy [OF svc_created_run]
  by (simp add: svc_destroyed_def)

lemma registrable_other: "registrable test_env ''other_'' svc_created"
  using NewMetricsStore_ReturnsD [OF svc_created_run]
  by (auto simp: registrable_def store_names_def test_env_def start_def)

lemma other_created_run: "NewMetricsStore test_env ''other_'' svc_created = Returns 1 other_created"
  using NewMetricsStore_registrable [OF registrable_other]
  by (auto simp: other_created_def svc_created_globals)

section \<open>The claims\<close>

text \<open>
  Claim C1. Destroying the bundle that is the active-bundle reference clears the
  reference, so that the next readiness evaluation reports Not-Ready and the readiness
  probe answers 503. The code does not do this: on a fresh process, after
  \<^verbatim>\<open>NewMetricsStore("svc_")\<close> and \<^verbatim>\<open>DestroyMetricsStore\<close> of the store it returned,
  \<^verbatim>\<open>globalMetricsStore\<close> still points at the destroyed store, the evaluator reports
  ready at every instant, and the probe answers 200.
\<close>

theorem DestroyMetricsStore_keeps_globalMetricsStore:
  "NewMetricsStore test_env ''svc_'' start = Returns 0 svc_created \<and>
   globalMetricsStore svc_created = Some 0 \<and>
   DestroyMetricsStore (Some 0) svc_created = Returns () svc_destroyed \<and>
   globalMetricsStore svc_destroyed = Some 0 \<and>
   isEventExporterReady now svc_destroyed \<and>
   serve_probe ''/-/ready'' now svc_destroyed =
     Some \<lparr>wroteHeader = True, status = 200, body = ''OK''\<rparr>"
proof -
  have g: "globalMetricsStore svc_destroyed = Some 0"
    and l: "lastEventProcessedTime svc_destroyed = 0"
    by (simp_all add: svc_destroyed_eq svc_created_globals)
  then have r: "isEventExporterReady now svc_destroyed"
    by (simp add: isEventExporterReady_def IsZero_def)
  then have "serve_probe ''/-/ready'' now svc_destroyed =
      Some \<lparr>wroteHeader = True, status = 200, body = ''OK''\<rparr>"
    by (simp add: serve_probe_def probe_routes_def ready_handler_def newResponseWriter_def
        WriteHeader_def Fprintf_def StatusOK_def)
  with g r show ?thesis
    by (simp add: svc_created_run svc_destroyed_run svc_created_globals)
qed

text \<open>
  Claim C2, as stated: creating twice with the same prefix, with no destruction in
  between, yields one bundle and one registration error that is returned to the caller
  as a recoverable result, never an abort. It fails: the second call returns nothing, it
  panics.
\<close>

theorem NewMetricsStore_twice_counterexample:
  "NewMetricsStore test_env ''svc_'' start = Returns 0 svc_created \<and>
   is_Panics (NewMetricsStore test_env ''svc_'' svc_created) \<and>
   panic_of (NewMetricsStore test_env ''svc_'' svc_created) =
     RegistrationPanic (AlreadyRegisteredError ''svc_build_info'')"
  using NewMetricsStore_again [OF svc_created_run] svc_created_run
  by auto

text \<open>
  Claim C2, amended. For every prefix whose eight derived names are valid and absent
  from the collection point, the first creation returns a bundle and the second, with no
  destruction in between, panics with the already-registered error of the first derived
  name (the prefix followed by \<^verbatim>\<open>build_info\<close>); the panic leaves the collection
  point, the stores, the active-bundle reference (the first bundle) and the timestamp as
  they were.
\<close>

theorem NewMetricsStore_twice:
  assumes "registrable E name_prefix s"
  shows "\<exists>p s1 s2. NewMetricsStore E name_prefix s = Returns p s1 \<and>
     NewMetricsStore E name_prefix s1 =
       Panics (RegistrationPanic (AlreadyRegisteredError (name_prefix @ ''build_info''))) s2 \<and>
     DefaultRegisterer s2 = DefaultRegisterer s1 \<and>
     globalMetricsStore s2 = Some p \<and>
     stores s2 = stores s1 \<and>
     lastEventProcessedTime s2 = lastEventProcessedTime s"
proof -
  from NewMetricsStore_registrable [OF assms]
  obtain s1 where c: "NewMetricsStore E name_prefix s = Returns (length (stores s)) s1"
    by blast
  from NewMetricsStore_again [OF c] obtain m where
    again: "NewMetricsStore E name_prefix s1 =
       Panics (RegistrationPanic (AlreadyRegisteredError (name_prefix @ ''build_info'')))
         (s1\<lparr>instruments := instruments s1 @ [m]\<rparr>)"
    by blast
  from NewMetricsStore_ReturnsD [OF c]
  have "globalMetricsStore s1 = Some (length (stores s))"
    and "lastEventProcessedTime s1 = lastEventProcessedTime s"
    by auto
  with c again show ?thesis
    by auto
qed

theorem NewMetricsStore_twice_witness:
  "registrable test_env ''svc_'' start \<and>
   NewMetricsStore test_env ''svc_'' start = Returns 0 svc_created \<and>
   is_Panics (NewMetricsStore test_env ''svc_'' svc_created) \<and>
   DefaultRegisterer (state_of (NewMetricsStore test_env ''svc_'' svc_created)) =
     DefaultRegisterer svc_created \<and>
   globalMetricsStore (state_of (NewMetricsStore test_env ''svc_'' svc_created)) = Some 0"
  using NewMetricsStore_twice [OF registrable_start] registrable_start svc_created_run
  by auto

text \<open>
  Claim C3. The readiness evaluator reports not ready when no bundle is active;
  otherwise ready when the last-processed time is the zero time; otherwise ready exactly
  when the time from the last-processed time to now is below five minutes. The
  saturation of the duration does not change the comparison.
\<close>

theorem isEventExporterReady_spec:
  "isEventExporterReady now s =
     (if globalMetricsStore s = None then False
      else if lastEventProcessedTime s = 0 then True
      else now - lastEventProcessedTime s < 5 * 60 * 1000000000)"
  by (simp add: isEventExporterReady_def IsZero_def Since_def Sub_def Let_def Minute_def
      Second_def minDuration_def maxDuration_def)

theorem isEventExporterReady_spec_witness:
  "\<not> isEventExporterReady 1000 start \<and>
   isEventExporterReady 1000 (start\<lparr>globalMetricsStore := Some 0\<rparr>) \<and>
   isEventExporterReady (1000 + 4 * Minute)
     (start\<lparr>globalMetricsStore := Some 0, lastEventProcessedTime := 1000\<rparr>) \<and>
   \<not> isEventExporterReady (1000 + 5 * Minute)
     (start\<lparr>globalMetricsStore := Some 0, lastEventProcessedTime := 1000\<rparr>) \<and>
   \<not> isEventExporterReady (1000 + 6 * Minute)
     (start\<lparr>globalMetricsStore := Some 0, lastEventProcessedTime := 1000\<rparr>) \<and>
   \<not> isEventExporterReady (2 ^ 64)
     (start\<lparr>globalMetricsStore := Some 0, lastEventProcessedTime := 1\<rparr>)"
  using isEventExporterReady_spec [of 1000 start]
    isEventExporterReady_spec [of 1000 "start\<lparr>globalMetricsStore := Some 0\<rparr>"]
    isEventExporterReady_spec [of "1000 + 4 * Minute"
      "start\<lparr>globalMetricsStore := Some 0, lastEventProcessedTime := 1000\<rparr>"]
    isEventExporterReady_spec [of "1000 + 5 * Minute"
      "start\<lparr>globalMetricsStore := Some 0, lastEventProcessedTime := 1000\<rparr>"]
    isEventExporterReady_spec [of "1000 + 6 * Minute"
      "start\<lparr>globalMetricsStore := Some 0, lastEventProcessedTime := 1000\<rparr>"]
    isEventExporterReady_spec [of "2 ^ 64"
      "start\<lparr>globalMetricsStore := Some 0, lastEventProcessedTime := 1\<rparr>"]
  by (simp add: start_def Minute_def Second_def)

text \<open>
  Claim C5. For every prefix whose derived names are valid and absent from the
  collection point, creating a store and at once destroying the store returned leaves
  the collection point exactly as it was before the creation.
\<close>

theorem Create_Destroy_restores_collection_point:
  assumes "registrable E name_prefix s"
  shows "\<exists>p s1 s2. NewMetricsStore E name_prefix s = Returns p s1 \<and>
     DestroyMetricsStore (Some p) s1 = Returns () s2 \<and>
     DefaultRegisterer s2 = DefaultRegisterer s"
proof -
  from NewMetricsStore_registrable [OF assms]
  obtain s1 where c: "NewMetricsStore E name_prefix s = Returns (length (stores s)) s1"
    by blast
  from NewMetricsStore_then_Destroy [OF c] c show ?thesis
    by auto
qed

theorem Create_Destroy_restores_collection_point_witness:
  "registrable test_env ''svc_'' start \<and>
   NewMetricsStore test_env ''svc_'' start = Returns 0 svc_created \<and>
   DefaultRegisterer svc_created ''svc_events_sent'' = Some 1 \<and>
   DestroyMetricsStore (Some 0) svc_created = Returns () svc_destroyed \<and>
   DefaultRegisterer svc_destroyed = DefaultRegisterer start"
proof -
  have "DefaultRegisterer svc_created ''svc_events_sent'' = Some 1"
    using NewMetricsStore_ReturnsD [OF svc_created_run] by (auto simp: start_def)
  then show ?thesis
    using Create_Destroy_restores_collection_point [OF registrable_start]
      registrable_start svc_created_run svc_destroyed_run
    by auto
qed

text \<open>
  Claim C6. Destroying is idempotent: when a call of \<^verbatim>\<open>DestroyMetricsStore\<close> on a
  bundle has returned, a second call on the same bundle returns as well, without a
  panic, and changes nothing: each of its unregistrations finds its instrument absent
  and is a no-op.
\<close>

theorem DestroyMetricsStore_idempotent:
  assumes "DestroyMetricsStore store s = Returns u s1"
  shows "DestroyMetricsStore store s1 = Returns () s1"
proof -
  from assms obtain st
    where st: "(case store of None \<Rightarrow> None | Some p \<Rightarrow> deref (stores s) p) = Some st"
      and r: "unregister_each (handles st) s = Returns () s1"
    by (auto simp: DestroyMetricsStore_unregister_each split: option.splits)
  from r have ok: "list_all (\<lambda>c. c < length (instruments s)) (handles st)"
    and s1: "s1 = unregistered (handles st) s"
    by (simp_all add: unregister_each_Returns_iff)
  have same: "stores s1 = stores s" "instruments s1 = instruments s"
    by (simp_all add: s1 unregistered_def)
  have "unregistered (handles st) s1 = s1"
    by (simp add: s1 unregistered_idem)
  with ok have "unregister_each (handles st) s1 = Returns () s1"
    by (simp add: unregister_each_Returns_iff same)
  with st show ?thesis
    by (simp add: DestroyMetricsStore_unregister_each same split: option.splits)
qed

theorem DestroyMetricsStore_idempotent_witness:
  "DestroyMetricsStore (Some 0) svc_created = Returns () svc_destroyed \<and>
   DestroyMetricsStore (Some 0) svc_destroyed = Returns () svc_destroyed"
  using DestroyMetricsStore_idempotent [OF svc_destroyed_run] svc_destroyed_run
  by simp

text \<open>
  Claim C7. A creation that returns has allocated exactly one instrument per signal:
  the eight handles of the new store are pairwise distinct and are the eight instruments
  allocated by the call, each is registered in the collection point, and each is
  exported under the prefix followed by the suffix of its signal.
\<close>

theorem NewMetricsStore_instruments:
  assumes "NewMetricsStore E name_prefix s = Returns p s'"
  shows "\<exists>st. deref (stores s') p = Some st \<and>
     exported_name s' (EventsProcessed st) = Some (name_prefix @ ''events_sent'') \<and>
     exported_name s' (EventsDiscarded st) = Some (name_prefix @ ''events_discarded'') \<and>
     exported_name s' (WatchErrors st) = Some (name_prefix @ ''watch_errors'') \<and>
     exported_name s' (SendErrors st) = Some (name_prefix @ ''send_event_errors'') \<and>
     exported_name s' (KubeApiReadCacheHits st) = Some (name_prefix @ ''kube_api_read_cache_hits'') \<and>
     exported_name s' (KubeApiReadRequests st) = Some (name_prefix @ ''kube_api_read_cache_misses'') \<and>
     exported_name s' (LastProcessedEventTimestamp st) =
       Some (name_prefix @ ''last_processed_event_timestamp'') \<and>
     exported_name s' (BuildInfo st) = Some (name_prefix @ ''build_info'') \<and>
     distinct (handles st) \<and>
     list_all (\<lambda>c. length (instruments s) \<le> c \<and> c < length (instruments s')) (handles st) \<and>
     length (instruments s') = length (instruments s) + 8 \<and>
     map (\<lambda>c. Option.bind (exported_name s' c) (DefaultRegisterer s')) (handles st) =
       map Some (handles st)"
  using NewMetricsStore_ReturnsD [OF assms]
  by (auto simp: deref_def exported_name_def handles_def store_names_def nth_append)

theorem NewMetricsStore_instruments_witness:
  "NewMetricsStore test_env ''svc_'' start = Returns 0 svc_created \<and>
   exported_name svc_created (EventsProcessed (stores svc_created ! 0)) = Some ''svc_events_sent'' \<and>
   exported_name svc_created (EventsDiscarded (stores svc_created ! 0)) = Some ''svc_events_discarded'' \<and>
   exported_name svc_created (WatchErrors (stores svc_created ! 0)) = Some ''svc_watch_errors'' \<and>
   exported_name svc_created (SendErrors (stores svc_created ! 0)) = Some ''svc_send_event_errors'' \<and>
   exported_name svc_created (KubeApiReadCacheHits (stores svc_created ! 0)) =
     Some ''svc_kube_api_read_cache_hits'' \<and>
   exported_name svc_created (KubeApiReadRequests (stores svc_created ! 0)) =
     Some ''svc_kube_api_read_cache_misses'' \<and>
   exported_name svc_created (LastProcessedEventTimestamp (stores svc_created ! 0)) =
     Some ''svc_last_processed_event_timestamp'' \<and>
   exported_name svc_created (BuildInfo (stores svc_created ! 0)) = Some ''svc_build_info'' \<and>
   length (instruments svc_created) = 8"
  using NewMetricsStore_instruments [OF svc_created_run] svc_created_run
  by (auto simp: deref_def start_def split: if_splits)

text \<open>
  Claim C8. A creation that returns sets the active-bundle reference to the bundle it
  has just allocated, whatever the reference was before, and leaves the last-processed
  time and every instrument and store that existed before as they were: it changes
  nothing but the collection point and that reference.
\<close>

theorem NewMetricsStore_frame:
  assumes "NewMetricsStore E name_prefix s = Returns p s'"
  shows "globalMetricsStore s' = Some p \<and>
     deref (stores s) p = None \<and>
     deref (stores s') p \<noteq> None \<and>
     lastEventProcessedTime s' = lastEventProcessedTime s \<and>
     take (length (instruments s)) (instruments s') = instruments s \<and>
     take (length (stores s)) (stores s') = stores s"
  using NewMetricsStore_ReturnsD [OF assms]
  by (auto simp: deref_def)

theorem NewMetricsStore_frame_witness:
  "NewMetricsStore test_env ''other_'' svc_created = Returns 1 other_created \<and>
   globalMetricsStore svc_created = Some 0 \<and>
   globalMetricsStore other_created = Some 1 \<and>
   deref (stores svc_created) 1 = None \<and>
   deref (stores other_created) 1 \<noteq> None \<and>
   lastEventProcessedTime other_created = lastEventProcessedTime svc_created \<and>
   take (length (instruments svc_created)) (instruments other_created) = instruments svc_created \<and>
   take (length (stores svc_created)) (stores other_created) = stores svc_created"
  using NewMetricsStore_frame [OF other_created_run] other_created_run svc_created_globals
  by simp

text \<open>
  Claim C9. The handler of \<^verbatim>\<open>/-/healthy\<close> always answers 200 with the body
  \<^verbatim>\<open>OK\<close>; the handler of \<^verbatim>\<open>/-/ready\<close> answers 200 with the body \<^verbatim>\<open>OK\<close>
  exactly when the readiness evaluator reports ready, and otherwise 503 with an
  explanatory body. Both are total: they answer, and never panic.
\<close>

theorem probe_responses:
  "serve_probe ''/-/healthy'' now s = Some \<lparr>wroteHeader = True, status = 200, body = ''OK''\<rparr> \<and>
   serve_probe ''/-/ready'' now s =
     Some (if isEventExporterReady now s
           then \<lparr>wroteHeader = True, status = 200, body = ''OK''\<rparr>
           else \<lparr>wroteHeader = True, status = 503,
                  body = ''Not Ready - No events processed recently''\<rparr>)"
  by (simp add: serve_probe_def probe_routes_def healthy_handler_def ready_handler_def
      newResponseWriter_def WriteHeader_def Fprintf_def StatusOK_def
      StatusServiceUnavailable_def)

theorem probe_responses_witness:
  "serve_probe ''/-/healthy'' 1000 start =
     Some \<lparr>wroteHeader = True, status = 200, body = ''OK''\<rparr> \<and>
   serve_probe ''/-/ready'' 1000 start =
     Some \<lparr>wroteHeader = True, status = 503, body = ''Not Ready - No events processed recently''\<rparr> \<and>
   serve_probe ''/-/ready'' 1000 svc_created =
     Some \<lparr>wroteHeader = True, status = 200, body = ''OK''\<rparr>"
proof -
  have "\<not> isEventExporterReady 1000 start"
    by (simp add: isEventExporterReady_def start_def)
  moreover have "isEventExporterReady 1000 svc_created"
    by (simp add: isEventExporterReady_def IsZero_def svc_created_globals)
  ultimately show ?thesis
    using probe_responses [of 1000 start] probe_responses [of 1000 svc_created]
    by simp
qed

text \<open>
  Claim C10. \<^verbatim>\<open>SetLastEventProcessedTime\<close> changes the last-processed time alone:
  the active-bundle reference, the collection point, every instrument with the number it
  reports (the exported timestamp gauge among them) and every store stay as they were.
\<close>

theorem SetLastEventProcessedTime_frame:
  "globalMetricsStore (SetLastEventProcessedTime now s) = globalMetricsStore s \<and>
   DefaultRegisterer (SetLastEventProcessedTime now s) = DefaultRegisterer s \<and>
   instruments (SetLastEventProcessedTime now s) = instruments s \<and>
   stores (SetLastEventProcessedTime now s) = stores s \<and>
   lastEventProcessedTime (SetLastEventProcessedTime now s) = now"
  by (simp add: SetLastEventProcessedTime_def)

theorem SetLastEventProcessedTime_frame_witness:
  "globalMetricsStore (SetLastEventProcessedTime 1000 svc_created) = Some 0 \<and>
   DefaultRegisterer (SetLastEventProcessedTime 1000 svc_created) = DefaultRegisterer svc_created \<and>
   instruments (SetLastEventProcessedTime 1000 svc_created) = instruments svc_created \<and>
   stores (SetLastEventProcessedTime 1000 svc_created) = stores svc_created \<and>
   lastEventProcessedTime (SetLastEventProcessedTime 1000 svc_created) = 1000"
  using SetLastEventProcessedTime_frame [of 1000 svc_created] svc_created_globals
  by simp

end
